theory Spec2Isabelle
  imports Complex_Main "HOL-Library.Multiset"
begin

section \<open>Measurements of the multi-sensor-fusion EKF core (msf\_measurement.hpp)\<close>

text \<open>
  The embedding follows \<^verbatim>\<open>msf_core/include/msf_core/msf_measurement.hpp\<close>.
  A C++ \<^verbatim>\<open>double\<close> that is only stored, copied and compared is modelled as a
  \<^typ>\<open>real\<close>: the finite doubles are ordered as the reals they denote (NaN is
  left out). A member function that mutates its object takes the object and returns
  the updated one. A template argument \<^verbatim>\<open>INDEX\<close> is a \<^typ>\<open>nat\<close>; in C++ an
  index outside the state's component list does not compile, so the theorems about one
  component speak of indices below the number of components. An Isabelle name cannot end
  in an underscore, so a C++ member \<^verbatim>\<open>x_\<close> is written \<open>x_'\<close>.
\<close>

subsection \<open>Outcomes and log output\<close>

text \<open>
  The error taxonomy of the specification. The header itself defines no error type: none
  of its functions throws or returns an error code, so every function of the header has
  the normal outcome \<open>Inr\<close> only.
\<close>

datatype MeasurementError =
  Invalid | ConversionFailed | DimensionMismatch | TooOld | SingularInnovation | NotSet

type_synonym 'a outcome = "MeasurementError + 'a"

text \<open>What \<^verbatim>\<open>ROS_ERROR_STREAM\<close> writes: one entry on the error level.\<close>

datatype LogEntry = ROS_ERROR string

subsection \<open>The EKF state, as the header uses it\<close>

text \<open>
  Modelled from the spec: the declaration of \<^verbatim>\<open>EKFState\<close> (msf\_state.hpp) is not
  part of the sources. The header reads and writes its members \<^verbatim>\<open>P_\<close>,
  \<^verbatim>\<open>w_m_\<close>, \<^verbatim>\<open>a_m_\<close> and, per component \<^verbatim>\<open>INDEX\<close>, a state variable with
  the members \<^verbatim>\<open>state_\<close> and \<^verbatim>\<open>hasResetValue\<close>; the specification's
  StateSnapshot adds the time of the snapshot. The type of a component's value is the
  parameter \<open>'v\<close>.
\<close>

record 'v StateVar =
  state_' :: 'v
  hasResetValue :: bool

record 'v EKFState =
  statevars :: "'v StateVar list"
  P_' :: "real list list"
  w_m_' :: "real list"
  a_m_' :: "real list"
  time :: real

text \<open>
  \<^verbatim>\<open>getStateVar<INDEX>()\<close> gives a reference to the state variable at \<^verbatim>\<open>INDEX\<close>;
  an assignment through it is \<open>putStateVar\<close>. The header calls \<^verbatim>\<open>get<INDEX>()\<close>
  twice: \<^verbatim>\<open>resetStateInitValue\<close> writes the member \<^verbatim>\<open>hasResetValue\<close> of what it
  returns, and \<^verbatim>\<open>getStateInitValue\<close> returns it as the component's \<^verbatim>\<open>value_t\<close>.
  The model follows each use: the state variable at \<^verbatim>\<open>INDEX\<close> in the first, its
  \<^verbatim>\<open>state_\<close> in the second.
\<close>

definition getStateVar :: "nat \<Rightarrow> 'v EKFState \<Rightarrow> 'v StateVar" where
  "getStateVar i st = statevars st ! i"

definition putStateVar :: "nat \<Rightarrow> 'v StateVar \<Rightarrow> 'v EKFState \<Rightarrow> 'v EKFState" where
  "putStateVar i sv st = st\<lparr>statevars := (statevars st)[i := sv]\<rparr>"

subsection \<open>MSF\_MeasurementBase and the comparator\<close>

record MSF_MeasurementBase =
  time_' :: real

text \<open>\<^verbatim>\<open>sortMeasurements::operator()\<close>: \<^verbatim>\<open>return (lhs.time_<rhs.time_);\<close>\<close>

definition sortMeasurements ::
  "'a MSF_MeasurementBase_scheme \<Rightarrow> 'a MSF_MeasurementBase_scheme \<Rightarrow> bool" where
  "sortMeasurements lhs rhs = (time_' lhs < time_' rhs)"

subsection \<open>MSF\_InvalidMeasurement\<close>

text \<open>
  \<^verbatim>\<open>apply\<close> is \<^verbatim>\<open>void\<close>; its body is the one \<^verbatim>\<open>ROS_ERROR_STREAM\<close> line. The
  model returns the outcome of the call, the state, the core and the log after it. The
  type of the core (\<^verbatim>\<open>MSF_Core\<close>, not in the sources) is the parameter \<open>'c\<close>.
\<close>

definition MSF_InvalidMeasurement_apply ::
  "'v EKFState \<Rightarrow> 'c \<Rightarrow> LogEntry list \<Rightarrow> unit outcome \<times> 'v EKFState \<times> 'c \<times> LogEntry list" where
  "MSF_InvalidMeasurement_apply stateWithCovariance core logged =
     (Inr (), stateWithCovariance, core,
      logged @ [ROS_ERROR ''Called apply() on an MSF_InvalidMeasurement object. This should never happen.''])"

subsection \<open>MSF\_Measurement\<close>

text \<open>
  The sensor measurement holds the noise covariance \<^verbatim>\<open>R_\<close>; what a sensor's own
  subclass adds is the record's extension. \<^verbatim>\<open>makeFromSensorReading\<close> stores the
  timestamp and then calls the pure virtual \<^verbatim>\<open>makeFromSensorReadingImpl\<close>, here the
  parameter \<open>impl\<close>.
\<close>

record MSF_Measurement = MSF_MeasurementBase +
  R_' :: "real list list"

definition makeFromSensorReading ::
  "('r \<Rightarrow> 'a MSF_Measurement_scheme \<Rightarrow> 'a MSF_Measurement_scheme) \<Rightarrow>
   'r \<Rightarrow> real \<Rightarrow> 'a MSF_Measurement_scheme \<Rightarrow> 'a MSF_Measurement_scheme" where
  "makeFromSensorReading impl reading timestamp this =
     impl reading (this\<lparr>time_' := timestamp\<rparr>)"

subsection \<open>MSF\_InitMeasurement\<close>

record 'v MSF_InitMeasurement = MSF_MeasurementBase +
  InitState :: "'v EKFState"
  ContainsInitialSensorReadings_' :: bool

text \<open>
  The constructor stores the flag and the current time (\<^verbatim>\<open>ros::Time::now().toSec()\<close>,
  the parameter \<open>now\<close>); \<^verbatim>\<open>InitState\<close> is default-constructed (the parameter
  \<open>dflt\<close>, since the default constructor of \<^verbatim>\<open>EKFState\<close> is not in the sources).
\<close>

definition MSF_InitMeasurement_new ::
  "real \<Rightarrow> 'v EKFState \<Rightarrow> bool \<Rightarrow> 'v MSF_InitMeasurement" where
  "MSF_InitMeasurement_new now dflt ContainsInitialSensorReadings =
     \<lparr>time_' = now, InitState = dflt,
      ContainsInitialSensorReadings_' = ContainsInitialSensorReadings\<rparr>"

text \<open>\<^verbatim>\<open>get_P()\<close>, \<^verbatim>\<open>get_w_m()\<close> and \<^verbatim>\<open>get_a_m()\<close> return references into
  \<^verbatim>\<open>InitState\<close>; the \<open>put\<close> functions are assignments through them.\<close>

definition get_P :: "'v MSF_InitMeasurement \<Rightarrow> real list list" where
  "get_P this = P_' (InitState this)"

definition put_P :: "real list list \<Rightarrow> 'v MSF_InitMeasurement \<Rightarrow> 'v MSF_InitMeasurement" where
  "put_P p this = this\<lparr>InitState := (InitState this)\<lparr>P_' := p\<rparr>\<rparr>"

definition get_w_m :: "'v MSF_InitMeasurement \<Rightarrow> real list" where
  "get_w_m this = w_m_' (InitState this)"

definition put_w_m :: "real list \<Rightarrow> 'v MSF_InitMeasurement \<Rightarrow> 'v MSF_InitMeasurement" where
  "put_w_m w this = this\<lparr>InitState := (InitState this)\<lparr>w_m_' := w\<rparr>\<rparr>"

definition get_a_m :: "'v MSF_InitMeasurement \<Rightarrow> real list" where
  "get_a_m this = a_m_' (InitState this)"

definition put_a_m :: "real list \<Rightarrow> 'v MSF_InitMeasurement \<Rightarrow> 'v MSF_InitMeasurement" where
  "put_a_m a this = this\<lparr>InitState := (InitState this)\<lparr>a_m_' := a\<rparr>\<rparr>"

text \<open>
  \<^verbatim>\<open>setStateInitValue<INDEX>(initvalue)\<close>: two assignments, with no test of the flag:
  \<^verbatim>\<open>InitState.getStateVar<INDEX>().state_ = initvalue;\<close>
  \<^verbatim>\<open>InitState.getStateVar<INDEX>().hasResetValue = true;\<close>
\<close>

definition setStateInitValue ::
  "nat \<Rightarrow> 'v \<Rightarrow> 'v MSF_InitMeasurement \<Rightarrow> 'v MSF_InitMeasurement" where
  "setStateInitValue i initvalue this =
     (let s1 = putStateVar i ((getStateVar i (InitState this))\<lparr>state_' := initvalue\<rparr>) (InitState this);
          s2 = putStateVar i ((getStateVar i s1)\<lparr>hasResetValue := True\<rparr>) s1
      in this\<lparr>InitState := s2\<rparr>)"

text \<open>\<^verbatim>\<open>resetStateInitValue<INDEX>()\<close>:
  \<^verbatim>\<open>InitState.get<INDEX>().hasResetValue = false;\<close>\<close>

definition resetStateInitValue ::
  "nat \<Rightarrow> 'v MSF_InitMeasurement \<Rightarrow> 'v MSF_InitMeasurement" where
  "resetStateInitValue i this =
     this\<lparr>InitState :=
       putStateVar i ((getStateVar i (InitState this))\<lparr>hasResetValue := False\<rparr>) (InitState this)\<rparr>"

text \<open>
  \<^verbatim>\<open>getStateInitValue<INDEX>() const\<close>: \<^verbatim>\<open>return InitState.get<INDEX>();\<close> with the
  return type \<^verbatim>\<open>const value_t&\<close>, the component's value. The flag is not read.
\<close>

definition getStateInitValue :: "nat \<Rightarrow> 'v MSF_InitMeasurement \<Rightarrow> 'v outcome" where
  "getStateInitValue i this = Inr (state_' (getStateVar i (InitState this)))"

text \<open>The flag of component \<open>i\<close> of an init measurement.\<close>

definition initFlag :: "nat \<Rightarrow> 'v MSF_InitMeasurement \<Rightarrow> bool" where
  "initFlag i this = hasResetValue (getStateVar i (InitState this))"

text \<open>A state of two unflagged integer components and the init measurement constructed
  from it at time 0, for the examples.\<close>

definition exampleState :: "int EKFState" where
  "exampleState =
     \<lparr>statevars = [\<lparr>state_' = 0, hasResetValue = False\<rparr>, \<lparr>state_' = 0, hasResetValue = False\<rparr>],
      P_' = [[0, 0], [0, 0]], w_m_' = [0, 0, 0], a_m_' = [0, 0, 0], time = 0\<rparr>"

definition exampleInit :: "int MSF_InitMeasurement" where
  "exampleInit = MSF_InitMeasurement_new 0 exampleState True"

text \<open>A conversion hook that stores the reading as the noise covariance, and a sensor
  measurement taken at time 1, for the examples.\<close>

definition exampleImpl :: "real list list \<Rightarrow> MSF_Measurement \<Rightarrow> MSF_Measurement" where
  "exampleImpl reading this = this\<lparr>R_' := reading\<rparr>"

definition exampleMeasurement :: MSF_Measurement where
  "exampleMeasurement = \<lparr>time_' = 1, R_' = [[1]]\<rparr>"

section \<open>The parts of the core that the header only declares or names\<close>

subsection \<open>MeasurementScheduler\<close>

text \<open>
  Modelled from the spec: the scheduler's queue is not in the sources, only its comparator
  \<open>sortMeasurements\<close> is. The specification: it "maintains a time-ordered,
  stable-tie-break pending queue", with \<^verbatim>\<open>enqueue(measurement)\<close> and
  \<^verbatim>\<open>drainNext() -> Option<Measurement>\<close>; "the consuming loop (external) repeatedly
  calls drainNext". The queue is a list with the next measurement first; \<open>enqueue\<close>
  puts a measurement before the first queued one that the comparator orders after it.
\<close>

fun enqueue ::
  "'a MSF_MeasurementBase_scheme \<Rightarrow> 'a MSF_MeasurementBase_scheme list \<Rightarrow>
   'a MSF_MeasurementBase_scheme list" where
  "enqueue m [] = [m]"
| "enqueue m (x # q) = (if sortMeasurements m x then m # x # q else x # enqueue m q)"

definition drainNext :: "'m list \<Rightarrow> ('m \<times> 'm list) option" where
  "drainNext q = (case q of [] \<Rightarrow> None | m # rest \<Rightarrow> Some (m, rest))"

definition enqueueAll ::
  "'a MSF_MeasurementBase_scheme list \<Rightarrow> 'a MSF_MeasurementBase_scheme list" where
  "enqueueAll ms = foldl (\<lambda>q m. enqueue m q) [] ms"

function drainAll :: "'m list \<Rightarrow> 'm list" where
  "drainAll q = (case drainNext q of None \<Rightarrow> [] | Some (m, rest) \<Rightarrow> m # drainAll rest)"
  by pat_completeness auto
termination
  by (relation "measure length") (auto simp: drainNext_def split: list.splits)

declare drainAll.simps [simp del]

subsection \<open>MSF\_InitMeasurement::apply\<close>

text \<open>
  Modelled from the spec: the header declares \<^verbatim>\<open>MSF_InitMeasurement::apply\<close> and its
  body is not in the sources. The specification: "for every component whose flag is set,
  overwrite the corresponding entry of snapshot.stateVector (and, for the subset
  representing raw bias/gyro/accel seeds, the designated fields) and clear that
  component's own covariance row/column to a configured initial uncertainty"; "each only
  touches the components it has flagged".

  The designated fields are the raw readings the header gives the measurement:
  \<^verbatim>\<open>w_m_\<close> ("the gyro measurment") and \<^verbatim>\<open>a_m_\<close> ("the acceleration
  measurment"). Which component represents the gyro seed and which the acceleration seed
  belongs to the layout of the state, which is not in the sources: the layout names, for
  each of the two fields, the component it belongs to, if the state has one. A designated
  field is overwritten with the measurement's reading when its component is flagged and
  the measurement holds readings at all (\<^verbatim>\<open>ContainsInitialSensorReadings_\<close>, "flag
  whether this measurement contains initial sensor readings").

  The configured initial uncertainty is the configuration option
  \<^verbatim>\<open>initialUncertainty\<close> of the specification, a matrix of the size of the covariance,
  here an argument; the specification's \<^verbatim>\<open>apply\<close> makes no use of the covariance
  stored in the measurement itself (\<^verbatim>\<open>get_P()\<close>). The measurement's
  \<^verbatim>\<open>InitState\<close> and the snapshot are of the same type \<^verbatim>\<open>EKFState\<close>, so they
  have the same components.
\<close>

record SeedLayout =
  gyroSeed :: "nat option"
  accelSeed :: "nat option"

definition componentFlagged :: "'v MSF_InitMeasurement \<Rightarrow> nat \<Rightarrow> bool" where
  "componentFlagged this i =
     (i < length (statevars (InitState this)) \<and> hasResetValue (statevars (InitState this) ! i))"

definition seedFlagged :: "'v MSF_InitMeasurement \<Rightarrow> nat option \<Rightarrow> bool" where
  "seedFlagged this seed =
     (case seed of
        None \<Rightarrow> False
      | Some i \<Rightarrow> ContainsInitialSensorReadings_' this \<and> componentFlagged this i)"

definition MSF_InitMeasurement_apply ::
  "real list list \<Rightarrow> SeedLayout \<Rightarrow> 'v MSF_InitMeasurement \<Rightarrow> 'v EKFState \<Rightarrow>
   unit outcome \<times> 'v EKFState" where
  "MSF_InitMeasurement_apply initialUncertainty layout this snapshot =
     (Inr (),
      snapshot\<lparr>
        statevars :=
          map (\<lambda>i. if componentFlagged this i
                    then (statevars snapshot ! i)\<lparr>state_' := state_' (statevars (InitState this) ! i)\<rparr>
                    else statevars snapshot ! i)
              [0..<length (statevars snapshot)],
        P_' :=
          map (\<lambda>r. map (\<lambda>c. if componentFlagged this r \<or> componentFlagged this c
                               then initialUncertainty ! r ! c
                               else P_' snapshot ! r ! c)
                         [0..<length (P_' snapshot ! r)])
              [0..<length (P_' snapshot)],
        w_m_' :=
          (if seedFlagged this (gyroSeed layout) then w_m_' (InitState this)
           else w_m_' snapshot),
        a_m_' :=
          (if seedFlagged this (accelSeed layout) then a_m_' (InitState this)
           else a_m_' snapshot)\<rparr>)"

text \<open>The snapshot after the application.\<close>

abbreviation initialized ::
  "real list list \<Rightarrow> SeedLayout \<Rightarrow> 'v MSF_InitMeasurement \<Rightarrow> 'v EKFState \<Rightarrow> 'v EKFState" where
  "initialized U L m s \<equiv> snd (MSF_InitMeasurement_apply U L m s)"

subsection \<open>The correction engine\<close>

text \<open>
  Modelled from the spec: the header declares \<^verbatim>\<open>calculateAndApplyCorrection\<close> and its
  body is not in the sources. The specification:
  \<^verbatim>\<open>S = H P Ht + R;  K = P Ht S^-1;  dx = K res;  P' = (I - K H) P (I - K H)t + K R Kt\<close>,
  failing with DimensionMismatch "if H/R dimensions disagree with state size" and with
  SingularInnovation when the innovation covariance is not invertible; the correction is
  "immediately folded into a snapshot". The inversion routine is the parameter
  \<open>invert\<close>: it returns \<open>None\<close> for a matrix it cannot invert, and otherwise a
  matrix of the size of its argument.

  Matrices are lists of rows; every operation is given the dimensions it works on. The
  entries stand for doubles, taken as exact reals: what is proved of the engine holds in
  exact arithmetic and says nothing about rounding.
\<close>

definition is_mat :: "nat \<Rightarrow> nat \<Rightarrow> real list list \<Rightarrow> bool" where
  "is_mat r c A = (length A = r \<and> list_all (\<lambda>row. length row = c) A)"

definition mat :: "nat \<Rightarrow> nat \<Rightarrow> (nat \<Rightarrow> nat \<Rightarrow> real) \<Rightarrow> real list list" where
  "mat r c f = map (\<lambda>i. map (f i) [0..<c]) [0..<r]"

definition mat_mul :: "nat \<Rightarrow> nat \<Rightarrow> nat \<Rightarrow> real list list \<Rightarrow> real list list \<Rightarrow> real list list" where
  "mat_mul r k c A B = mat r c (\<lambda>i j. \<Sum>l\<leftarrow>[0..<k]. A ! i ! l * B ! l ! j)"

definition mat_transpose :: "nat \<Rightarrow> nat \<Rightarrow> real list list \<Rightarrow> real list list" where
  "mat_transpose r c A = mat c r (\<lambda>i j. A ! j ! i)"

definition mat_add :: "nat \<Rightarrow> nat \<Rightarrow> real list list \<Rightarrow> real list list \<Rightarrow> real list list" where
  "mat_add r c A B = mat r c (\<lambda>i j. A ! i ! j + B ! i ! j)"

definition mat_sub :: "nat \<Rightarrow> nat \<Rightarrow> real list list \<Rightarrow> real list list \<Rightarrow> real list list" where
  "mat_sub r c A B = mat r c (\<lambda>i j. A ! i ! j - B ! i ! j)"

definition mat_identity :: "nat \<Rightarrow> real list list" where
  "mat_identity n = mat n n (\<lambda>i j. if i = j then 1 else 0)"

definition mat_vec :: "nat \<Rightarrow> nat \<Rightarrow> real list list \<Rightarrow> real list \<Rightarrow> real list" where
  "mat_vec r c A v = map (\<lambda>i. \<Sum>l\<leftarrow>[0..<c]. A ! i ! l * v ! l) [0..<r]"

text \<open>The correction of one snapshot; \<open>n\<close> is the number of state components,
  \<open>m\<close> the size of the measurement.\<close>

definition calculateAndApplyCorrection ::
  "(real list list \<Rightarrow> real list list option) \<Rightarrow> real EKFState \<Rightarrow>
   real list list \<Rightarrow> real list \<Rightarrow> real list list \<Rightarrow> real EKFState outcome" where
  "calculateAndApplyCorrection invert state H_delayed res_delayed R_delayed =
     (let n = length (statevars state); m = length res_delayed; P = P_' state in
      if \<not> (is_mat m n H_delayed \<and> is_mat m m R_delayed \<and> is_mat n n P)
      then Inl DimensionMismatch
      else
        let Ht = mat_transpose m n H_delayed;
            S = mat_add m m (mat_mul m n m (mat_mul m n n H_delayed P) Ht) R_delayed
        in case invert S of
             None \<Rightarrow> Inl SingularInnovation
           | Some S_inv \<Rightarrow>
               let K = mat_mul n m m (mat_mul n n m P Ht) S_inv;
                   correction = mat_vec n m K res_delayed;
                   KH = mat_sub n n (mat_identity n) (mat_mul n m n K H_delayed);
                   P_new = mat_add n n
                     (mat_mul n n n (mat_mul n n n KH P) (mat_transpose n n KH))
                     (mat_mul n m n (mat_mul n m m K R_delayed) (mat_transpose n m K))
               in Inr (state\<lparr>
                    statevars :=
                      map (\<lambda>i. (statevars state ! i)
                              \<lparr>state_' := state_' (statevars state ! i) + correction ! i\<rparr>)
                          [0..<n],
                    P_' := P_new\<rparr>))"





subsection \<open>StateHistoryBuffer, the filter context and delay resolution\<close>

text \<open>
  Modelled from the spec: the history buffer, the context and the application of a sensor
  measurement live in the core, which is not in the sources. The specification: the
  buffer is an "ordered-by-time container of snapshots" with
  \<^verbatim>\<open>findAtOrBefore(time) -> Option<&mut Snapshot>\<close>; the context holds the head
  snapshot, the retained older snapshots (oldest first) and what was reported to the
  logger. A sensor measurement carries the inputs of the correction.
\<close>

record 'v FilterContext =
  retained :: "'v EKFState list"
  headSnapshot :: "'v EKFState"
  reported :: "MeasurementError list"

record TypedMeasurement = MSF_Measurement +
  jacobian :: "real list list"
  residual :: "real list"

text \<open>\<^verbatim>\<open>findAtOrBefore(time)\<close>: the index of the last retained snapshot whose time is at
  or before \<open>t\<close>; in a buffer ordered by time this is the nearest one. A failure is
  reported by adding it to what the context has reported.\<close>

fun findAtOrBefore :: "real \<Rightarrow> 'v EKFState list \<Rightarrow> nat option" where
  "findAtOrBefore t [] = None"
| "findAtOrBefore t (s # ss) =
     (case findAtOrBefore t ss of
        Some j \<Rightarrow> Some (Suc j)
      | None \<Rightarrow> if time s \<le> t then Some 0 else None)"

definition reportFailure :: "MeasurementError \<Rightarrow> 'v FilterContext \<Rightarrow> 'v FilterContext" where
  "reportFailure e ctx = ctx\<lparr>reported := reported ctx @ [e]\<rparr>"

text \<open>
  Modelled from the spec: "If \<^verbatim>\<open>time >= head.time\<close>: apply directly to head snapshot.
  If \<^verbatim>\<open>time < head.time\<close>: locate the nearest snapshot in StateHistoryBuffer with
  \<^verbatim>\<open>snapshot.time <= time\<close> (fails with TooOld if none within the retained window);
  apply the correction there; then re-propagate every snapshot strictly after it up to
  head", the re-propagation being "delegated to the external Filter-Core collaborator via
  a context-provided \<^verbatim>\<open>reapplyFrom(time)\<close> hook", here the parameter
  \<open>reapplyFrom\<close>. A failure is reported and "the measurement is dropped without
  mutating any snapshot".
\<close>

definition TypedMeasurement_apply ::
  "(real list list \<Rightarrow> real list list option) \<Rightarrow>
   (real \<Rightarrow> real FilterContext \<Rightarrow> real FilterContext) \<Rightarrow>
   TypedMeasurement \<Rightarrow> real FilterContext \<Rightarrow> unit outcome \<times> real FilterContext" where
  "TypedMeasurement_apply invert reapplyFrom this ctx =
     (if time (headSnapshot ctx) \<le> time_' this then
        (case calculateAndApplyCorrection invert (headSnapshot ctx)
                (jacobian this) (residual this) (R_' this) of
           Inl e \<Rightarrow> (Inl e, reportFailure e ctx)
         | Inr s \<Rightarrow> (Inr (), ctx\<lparr>headSnapshot := s\<rparr>))
      else
        (case findAtOrBefore (time_' this) (retained ctx) of
           None \<Rightarrow> (Inl TooOld, reportFailure TooOld ctx)
         | Some i \<Rightarrow>
             (case calculateAndApplyCorrection invert (retained ctx ! i)
                     (jacobian this) (residual this) (R_' this) of
                Inl e \<Rightarrow> (Inl e, reportFailure e ctx)
              | Inr s \<Rightarrow>
                  (Inr (), reapplyFrom (time_' this) (ctx\<lparr>retained := (retained ctx)[i := s]\<rparr>)))))"

subsection \<open>Example inputs\<close>

text \<open>Four measurements in their order of arrival, tagged 0 to 3: the times 1, 3, 2 of
  the specification's scenario and a second measurement at time 2.\<close>

definition exampleArrivals :: "nat MSF_MeasurementBase_scheme list" where
  "exampleArrivals =
     [\<lparr>time_' = 1, \<dots> = 0\<rparr>, \<lparr>time_' = 3, \<dots> = 1\<rparr>, \<lparr>time_' = 2, \<dots> = 2\<rparr>, \<lparr>time_' = 2, \<dots> = 3\<rparr>]"

text \<open>An initial uncertainty for a state of two components, a layout in which component 0
  is the gyro seed and component 1 the acceleration seed, and two init measurements: one
  sets component 0 to 5 and carries the gyro reading, the other sets component 1 to 7 and
  carries the acceleration reading.\<close>

definition exampleUncertainty :: "real list list" where
  "exampleUncertainty = [[1, 0], [0, 1]]"

definition exampleLayout :: SeedLayout where
  "exampleLayout = \<lparr>gyroSeed = Some 0, accelSeed = Some 1\<rparr>"

definition exampleGyroInit :: "int MSF_InitMeasurement" where
  "exampleGyroInit = put_w_m [1, 2, 3] (setStateInitValue 0 5 exampleInit)"

definition exampleAccelInit :: "int MSF_InitMeasurement" where
  "exampleAccelInit = put_a_m [4, 5, 6] (setStateInitValue 1 7 exampleInit)"

text \<open>An inversion routine for 1x1 matrices, a re-propagation hook that leaves the context
  as it is, a snapshot of one component at a given time, a context that retains the
  snapshots of times 1 and 2 behind the head of time 3, and a sensor measurement of
  size 1 taken at a given time.\<close>

definition invert1 :: "real list list \<Rightarrow> real list list option" where
  "invert1 S = (case S of [[s]] \<Rightarrow> if s = 0 then None else Some [[1 / s]] | _ \<Rightarrow> None)"

definition keepContext :: "real \<Rightarrow> real FilterContext \<Rightarrow> real FilterContext" where
  "keepContext t ctx = ctx"

definition exampleSnapshot :: "real \<Rightarrow> real EKFState" where
  "exampleSnapshot t =
     \<lparr>statevars = [\<lparr>state_' = 0, hasResetValue = False\<rparr>], P_' = [[1]],
      w_m_' = [], a_m_' = [], time = t\<rparr>"

definition exampleContext :: "real FilterContext" where
  "exampleContext =
     \<lparr>retained = [exampleSnapshot 1, exampleSnapshot 2], headSnapshot = exampleSnapshot 3,
      reported = []\<rparr>"

definition exampleReading :: "real \<Rightarrow> TypedMeasurement" where
  "exampleReading t = \<lparr>time_' = t, R_' = [[1]], jacobian = [[1]], residual = [2]\<rparr>"

section \<open>Properties of the init measurement's component operations\<close>

lemma statevars_setStateInitValue:
  "statevars (InitState (setStateInitValue i v m)) =
     (statevars (InitState m))
       [i := (statevars (InitState m) ! i)\<lparr>state_' := v, hasResetValue := True\<rparr>]"
proof (cases "i < length (statevars (InitState m))")
  case True
  then show ?thesis
    by (simp add: setStateInitValue_def putStateVar_def getStateVar_def Let_def)
next
  case False
  then have "length (statevars (InitState m)) \<le> i" by simp
  then show ?thesis
    by (simp add: setStateInitValue_def putStateVar_def getStateVar_def Let_def
        list_update_beyond)
qed

lemma statevars_resetStateInitValue:
  "statevars (InitState (resetStateInitValue i m)) =
     (statevars (InitState m))[i := (statevars (InitState m) ! i)\<lparr>hasResetValue := False\<rparr>]"
  by (simp add: resetStateInitValue_def putStateVar_def getStateVar_def)

lemma state_nth_flag_update:
  "state_' (xs[i := (xs ! i)\<lparr>hasResetValue := b\<rparr>] ! k) = state_' (xs ! k)"
proof (cases "i < length xs")
  case True
  then show ?thesis by (cases "k = i") simp_all
next
  case False
  then have "length xs \<le> i" by simp
  then show ?thesis by (simp add: list_update_beyond)
qed

text \<open>
  C9. Clearing a component's flag is idempotent and keeps the stored value: two clears
  give the same measurement as one, no component's value is changed by a clear, and after
  a set followed by a clear the read still returns the value that was set.
\<close>

theorem resetStateInitValue_idempotent_keeps_value:
  "resetStateInitValue i (resetStateInitValue i m) = resetStateInitValue i m \<and>
   (\<forall>k. state_' (getStateVar k (InitState (resetStateInitValue i m))) =
        state_' (getStateVar k (InitState m))) \<and>
   (i < length (statevars (InitState m)) \<longrightarrow>
      getStateInitValue i (resetStateInitValue i (setStateInitValue i v m)) = Inr v)"
proof (intro conjI allI impI)
  show "resetStateInitValue i (resetStateInitValue i m) = resetStateInitValue i m"
  proof (cases "i < length (statevars (InitState m))")
    case True
    then show ?thesis
      by (simp add: resetStateInitValue_def putStateVar_def getStateVar_def)
  next
    case False
    then have "length (statevars (InitState m)) \<le> i" by simp
    then show ?thesis
      by (simp add: resetStateInitValue_def putStateVar_def getStateVar_def list_update_beyond)
  qed
next
  fix k
  show "state_' (getStateVar k (InitState (resetStateInitValue i m))) =
        state_' (getStateVar k (InitState m))"
    by (simp add: getStateVar_def statevars_resetStateInitValue state_nth_flag_update)
next
  assume "i < length (statevars (InitState m))"
  then show "getStateInitValue i (resetStateInitValue i (setStateInitValue i v m)) = Inr v"
    by (simp add: getStateInitValue_def getStateVar_def statevars_resetStateInitValue
        statevars_setStateInitValue)
qed

theorem resetStateInitValue_idempotent_keeps_value_witness:
  "resetStateInitValue 0 (resetStateInitValue 0 exampleInit) = resetStateInitValue 0 exampleInit \<and>
   getStateInitValue 0 (resetStateInitValue 0 (setStateInitValue 0 5 exampleInit)) = Inr 5"
proof -
  have len: "0 < length (statevars (InitState exampleInit))"
    by (simp add: exampleInit_def MSF_InitMeasurement_new_def exampleState_def)
  from resetStateInitValue_idempotent_keeps_value [of 0 exampleInit 5] len
  show ?thesis by blast
qed

lemma getStateVar_setStateInitValue_other:
  "k \<noteq> i \<Longrightarrow> getStateVar k (InitState (setStateInitValue i v m)) = getStateVar k (InitState m)"
  by (simp add: getStateVar_def statevars_setStateInitValue)

lemma getStateVar_resetStateInitValue_other:
  "k \<noteq> i \<Longrightarrow> getStateVar k (InitState (resetStateInitValue i m)) = getStateVar k (InitState m)"
  by (simp add: getStateVar_def statevars_resetStateInitValue)

lemma flag_nth_flag_update:
  "hasResetValue (xs[i := (xs ! i)\<lparr>hasResetValue := False\<rparr>] ! k) \<Longrightarrow> hasResetValue (xs ! k)"
proof (cases "i < length xs")
  case True
  assume "hasResetValue (xs[i := (xs ! i)\<lparr>hasResetValue := False\<rparr>] ! k)"
  with True show ?thesis by (cases "k = i") simp_all
next
  case False
  assume a: "hasResetValue (xs[i := (xs ! i)\<lparr>hasResetValue := False\<rparr>] ! k)"
  from False have "length xs \<le> i" by simp
  with a show ?thesis by (simp add: list_update_beyond)
qed

lemma exampleInit_components: "length (statevars (InitState exampleInit)) = 2"
  by (simp add: exampleInit_def MSF_InitMeasurement_new_def exampleState_def)

section \<open>The invalid measurement\<close>

text \<open>
  C5 (as the code has it). \<^verbatim>\<open>MSF_InvalidMeasurement::apply\<close> returns normally, with no
  error value: all it does is add the one message "Called apply() on an
  MSF_InvalidMeasurement object. This should never happen." to the error log. The state
  (state vector and covariance) and the core are exactly as before the call.
\<close>

theorem MSF_InvalidMeasurement_apply_logs_only:
  "fst (MSF_InvalidMeasurement_apply st core logged) = Inr () \<and>
   fst (snd (MSF_InvalidMeasurement_apply st core logged)) = st \<and>
   fst (snd (snd (MSF_InvalidMeasurement_apply st core logged))) = core \<and>
   snd (snd (snd (MSF_InvalidMeasurement_apply st core logged))) =
     logged @ [ROS_ERROR ''Called apply() on an MSF_InvalidMeasurement object. This should never happen.'']"
  by (simp add: MSF_InvalidMeasurement_apply_def)

text \<open>The call on the example state does not end in the error \<open>Invalid\<close>.\<close>

theorem MSF_InvalidMeasurement_apply_returns_no_error:
  "fst (MSF_InvalidMeasurement_apply exampleState (0::nat) []) \<noteq> Inl Invalid"
  by (simp add: MSF_InvalidMeasurement_apply_def)

section \<open>Setting, clearing and reading a component's init value\<close>

text \<open>
  C6 (as the code has it). A component's flag is never set by clearing a component or by
  writing the covariance or the sensor readings, and setting component \<open>i\<close> leaves
  the flag of every other component as it was. \<^verbatim>\<open>setStateInitValue\<close> does not look
  at the flag: on every component, flagged already or not, it stores the new value and
  the flag is set afterwards.
\<close>

theorem setStateInitValue_on_flagged_component:
  "(initFlag k (resetStateInitValue i m) \<longrightarrow> initFlag k m) \<and>
   initFlag k (put_P p m) = initFlag k m \<and>
   initFlag k (put_w_m w m) = initFlag k m \<and>
   initFlag k (put_a_m a m) = initFlag k m \<and>
   (k \<noteq> i \<longrightarrow> initFlag k (setStateInitValue i v m) = initFlag k m) \<and>
   (i < length (statevars (InitState m)) \<longrightarrow>
      initFlag i (setStateInitValue i v m) \<and>
      getStateInitValue i (setStateInitValue i v m) = Inr v)"
proof (intro conjI impI)
  assume "initFlag k (resetStateInitValue i m)"
  then have "hasResetValue ((statevars (InitState m))
      [i := (statevars (InitState m) ! i)\<lparr>hasResetValue := False\<rparr>] ! k)"
    by (simp add: initFlag_def getStateVar_def statevars_resetStateInitValue)
  then have "hasResetValue (statevars (InitState m) ! k)"
    by (rule flag_nth_flag_update)
  then show "initFlag k m"
    by (simp add: initFlag_def getStateVar_def)
next
  show "initFlag k (put_P p m) = initFlag k m"
    by (simp add: initFlag_def put_P_def getStateVar_def)
next
  show "initFlag k (put_w_m w m) = initFlag k m"
    by (simp add: initFlag_def put_w_m_def getStateVar_def)
next
  show "initFlag k (put_a_m a m) = initFlag k m"
    by (simp add: initFlag_def put_a_m_def getStateVar_def)
next
  assume "k \<noteq> i"
  then show "initFlag k (setStateInitValue i v m) = initFlag k m"
    by (simp add: initFlag_def getStateVar_setStateInitValue_other)
next
  assume "i < length (statevars (InitState m))"
  then show "initFlag i (setStateInitValue i v m)"
    by (simp add: initFlag_def getStateVar_def statevars_setStateInitValue)
next
  assume "i < length (statevars (InitState m))"
  then show "getStateInitValue i (setStateInitValue i v m) = Inr v"
    by (simp add: getStateInitValue_def getStateVar_def statevars_setStateInitValue)
qed

theorem setStateInitValue_on_flagged_component_witness:
  "initFlag 0 (setStateInitValue 0 1 exampleInit) \<and>
   initFlag 0 (setStateInitValue 0 2 (setStateInitValue 0 1 exampleInit)) \<and>
   getStateInitValue 0 (setStateInitValue 0 2 (setStateInitValue 0 1 exampleInit)) = Inr 2 \<and>
   initFlag 1 (setStateInitValue 0 2 (setStateInitValue 0 1 exampleInit)) = initFlag 1 exampleInit"
proof -
  have l0: "0 < length (statevars (InitState exampleInit))"
    by (simp add: exampleInit_components)
  have l1: "0 < length (statevars (InitState (setStateInitValue 0 1 exampleInit)))"
    by (simp add: statevars_setStateInitValue exampleInit_components)
  have ne: "(1::nat) \<noteq> 0" by simp
  from setStateInitValue_on_flagged_component [of 1 0 exampleInit _ _ _ 1] l0 ne
  have a: "initFlag 0 (setStateInitValue 0 1 exampleInit)"
    and b: "initFlag 1 (setStateInitValue 0 1 exampleInit) = initFlag 1 exampleInit"
    by blast+
  from setStateInitValue_on_flagged_component [of 1 0 "setStateInitValue 0 1 exampleInit" _ _ _ 2] l1 ne
  have c: "initFlag 0 (setStateInitValue 0 2 (setStateInitValue 0 1 exampleInit))"
    and d: "getStateInitValue 0 (setStateInitValue 0 2 (setStateInitValue 0 1 exampleInit)) = Inr 2"
    and e: "initFlag 1 (setStateInitValue 0 2 (setStateInitValue 0 1 exampleInit)) =
            initFlag 1 (setStateInitValue 0 1 exampleInit)"
    by blast+
  from a b c d e show ?thesis by simp
qed

text \<open>After component 0 has been set to 1 and is flagged, a second set to 2 goes through
  with no clear in between: the stored value is 2 and the measurement has changed.\<close>

theorem second_setStateInitValue_is_performed:
  "initFlag 0 (setStateInitValue 0 1 exampleInit) \<and>
   getStateInitValue 0 (setStateInitValue 0 1 exampleInit) = Inr 1 \<and>
   getStateInitValue 0 (setStateInitValue 0 2 (setStateInitValue 0 1 exampleInit)) = Inr 2 \<and>
   setStateInitValue 0 2 (setStateInitValue 0 1 exampleInit) \<noteq> setStateInitValue 0 1 exampleInit"
proof -
  have a: "initFlag 0 (setStateInitValue 0 1 exampleInit)"
    by (simp add: initFlag_def getStateVar_def statevars_setStateInitValue exampleInit_components)
  have b: "getStateInitValue 0 (setStateInitValue 0 1 exampleInit) = Inr 1"
    by (simp add: getStateInitValue_def getStateVar_def statevars_setStateInitValue
        exampleInit_components)
  have c: "getStateInitValue 0 (setStateInitValue 0 2 (setStateInitValue 0 1 exampleInit)) = Inr 2"
    by (simp add: getStateInitValue_def getStateVar_def statevars_setStateInitValue
        exampleInit_components)
  from b c have "setStateInitValue 0 2 (setStateInitValue 0 1 exampleInit) \<noteq>
      setStateInitValue 0 1 exampleInit"
    by auto
  with a b c show ?thesis by simp
qed

text \<open>
  C7 (as the code has it). \<^verbatim>\<open>getStateInitValue\<close> never fails: it returns the value
  stored for the component whether the flag is set or clear, and clearing the flag does
  not change what it returns.
\<close>

theorem getStateInitValue_ignores_flag:
  "getStateInitValue i m = Inr (state_' (getStateVar i (InitState m))) \<and>
   (\<forall>e. getStateInitValue i m \<noteq> Inl e) \<and>
   getStateInitValue i (resetStateInitValue i m) = getStateInitValue i m"
  by (simp add: getStateInitValue_def getStateVar_def statevars_resetStateInitValue
      state_nth_flag_update)

text \<open>Component 0, set to 5 and then cleared, reads as 5 with the flag clear; component
  1, never set, reads as the default value 0.\<close>

theorem getStateInitValue_of_cleared_component:
  "\<not> initFlag 0 (resetStateInitValue 0 (setStateInitValue 0 5 exampleInit)) \<and>
   getStateInitValue 0 (resetStateInitValue 0 (setStateInitValue 0 5 exampleInit)) = Inr 5 \<and>
   getStateInitValue 0 (resetStateInitValue 0 (setStateInitValue 0 5 exampleInit)) \<noteq> Inl NotSet \<and>
   \<not> initFlag 1 exampleInit \<and>
   getStateInitValue 1 exampleInit = Inr 0"
proof -
  have a: "\<not> initFlag 0 (resetStateInitValue 0 (setStateInitValue 0 5 exampleInit))"
    by (simp add: initFlag_def getStateVar_def statevars_resetStateInitValue
        statevars_setStateInitValue exampleInit_components)
  have b: "getStateInitValue 0 (resetStateInitValue 0 (setStateInitValue 0 5 exampleInit)) = Inr 5"
    by (simp add: getStateInitValue_def getStateVar_def statevars_resetStateInitValue
        statevars_setStateInitValue exampleInit_components)
  have c: "\<not> initFlag 1 exampleInit"
    by (simp add: initFlag_def getStateVar_def exampleInit_def MSF_InitMeasurement_new_def
        exampleState_def)
  have d: "getStateInitValue 1 exampleInit = Inr 0"
    by (simp add: getStateInitValue_def getStateVar_def exampleInit_def
        MSF_InitMeasurement_new_def exampleState_def)
  from a b c d show ?thesis by simp
qed

section \<open>What the operations on a measurement change\<close>

text \<open>
  C10 (as the code has it). A measurement can be changed after it was constructed. The two
  setters of an init measurement change only the component they address: the timestamp,
  the flag \<^verbatim>\<open>ContainsInitialSensorReadings_\<close>, the covariance, the sensor readings
  and every other component are as before. \<^verbatim>\<open>makeFromSensorReading\<close> overwrites the
  timestamp of the measurement it is called on, when the conversion hook keeps the
  timestamp it is given.
\<close>

theorem init_setters_frame:
  "time_' (setStateInitValue i v m) = time_' m \<and>
   ContainsInitialSensorReadings_' (setStateInitValue i v m) = ContainsInitialSensorReadings_' m \<and>
   P_' (InitState (setStateInitValue i v m)) = P_' (InitState m) \<and>
   w_m_' (InitState (setStateInitValue i v m)) = w_m_' (InitState m) \<and>
   a_m_' (InitState (setStateInitValue i v m)) = a_m_' (InitState m) \<and>
   (k \<noteq> i \<longrightarrow> getStateVar k (InitState (setStateInitValue i v m)) = getStateVar k (InitState m)) \<and>
   time_' (resetStateInitValue i m) = time_' m \<and>
   ContainsInitialSensorReadings_' (resetStateInitValue i m) = ContainsInitialSensorReadings_' m \<and>
   P_' (InitState (resetStateInitValue i m)) = P_' (InitState m) \<and>
   w_m_' (InitState (resetStateInitValue i m)) = w_m_' (InitState m) \<and>
   a_m_' (InitState (resetStateInitValue i m)) = a_m_' (InitState m) \<and>
   (k \<noteq> i \<longrightarrow> getStateVar k (InitState (resetStateInitValue i m)) = getStateVar k (InitState m)) \<and>
   ((\<forall>r x. time_' (impl r x) = time_' x) \<longrightarrow>
      time_' (makeFromSensorReading impl reading timestamp this) = timestamp)"
proof -
  have s: "time_' (setStateInitValue i v m) = time_' m \<and>
      ContainsInitialSensorReadings_' (setStateInitValue i v m) = ContainsInitialSensorReadings_' m \<and>
      P_' (InitState (setStateInitValue i v m)) = P_' (InitState m) \<and>
      w_m_' (InitState (setStateInitValue i v m)) = w_m_' (InitState m) \<and>
      a_m_' (InitState (setStateInitValue i v m)) = a_m_' (InitState m)"
    by (simp add: setStateInitValue_def putStateVar_def Let_def)
  have r: "time_' (resetStateInitValue i m) = time_' m \<and>
      ContainsInitialSensorReadings_' (resetStateInitValue i m) = ContainsInitialSensorReadings_' m \<and>
      P_' (InitState (resetStateInitValue i m)) = P_' (InitState m) \<and>
      w_m_' (InitState (resetStateInitValue i m)) = w_m_' (InitState m) \<and>
      a_m_' (InitState (resetStateInitValue i m)) = a_m_' (InitState m)"
    by (simp add: resetStateInitValue_def putStateVar_def)
  have so: "k \<noteq> i \<longrightarrow>
      getStateVar k (InitState (setStateInitValue i v m)) = getStateVar k (InitState m)"
    by (simp add: getStateVar_setStateInitValue_other)
  have ro: "k \<noteq> i \<longrightarrow>
      getStateVar k (InitState (resetStateInitValue i m)) = getStateVar k (InitState m)"
    by (simp add: getStateVar_resetStateInitValue_other)
  have mk: "(\<forall>r x. time_' (impl r x) = time_' x) \<longrightarrow>
      time_' (makeFromSensorReading impl reading timestamp this) = timestamp"
    by (simp add: makeFromSensorReading_def)
  from s r so ro mk show ?thesis by blast
qed

theorem init_setters_frame_witness:
  "time_' (setStateInitValue 0 5 exampleInit) = time_' exampleInit \<and>
   getStateVar 1 (InitState (setStateInitValue 0 5 exampleInit)) = getStateVar 1 (InitState exampleInit) \<and>
   getStateVar 1 (InitState (resetStateInitValue 0 exampleInit)) = getStateVar 1 (InitState exampleInit) \<and>
   time_' (makeFromSensorReading exampleImpl [[2]] 2 exampleMeasurement) = 2"
proof -
  have ne: "(1::nat) \<noteq> 0" by simp
  have h: "\<forall>r x. time_' (exampleImpl r x) = time_' x"
    by (simp add: exampleImpl_def)
  from init_setters_frame [of 0 5 exampleInit 1 exampleImpl "[[2]]" 2 exampleMeasurement] ne h
  show ?thesis by blast
qed

text \<open>On the example measurements: a set changes the init measurement, a clear changes it
  again, and \<^verbatim>\<open>makeFromSensorReading\<close> replaces the timestamp 1 by 2.\<close>

theorem measurement_changed_after_construction:
  "setStateInitValue 0 5 exampleInit \<noteq> exampleInit \<and>
   resetStateInitValue 0 (setStateInitValue 0 5 exampleInit) \<noteq> setStateInitValue 0 5 exampleInit \<and>
   time_' (makeFromSensorReading exampleImpl [[2]] 2 exampleMeasurement) \<noteq> time_' exampleMeasurement"
proof -
  have a: "getStateInitValue 0 (setStateInitValue 0 5 exampleInit) = Inr 5"
    by (simp add: getStateInitValue_def getStateVar_def statevars_setStateInitValue
        exampleInit_components)
  have b: "getStateInitValue 0 exampleInit = Inr 0"
    by (simp add: getStateInitValue_def getStateVar_def exampleInit_def
        MSF_InitMeasurement_new_def exampleState_def)
  have c: "initFlag 0 (setStateInitValue 0 5 exampleInit)"
    by (simp add: initFlag_def getStateVar_def statevars_setStateInitValue exampleInit_components)
  have d: "\<not> initFlag 0 (resetStateInitValue 0 (setStateInitValue 0 5 exampleInit))"
    by (simp add: initFlag_def getStateVar_def statevars_resetStateInitValue
        statevars_setStateInitValue exampleInit_components)
  have e: "time_' (makeFromSensorReading exampleImpl [[2]] 2 exampleMeasurement) = 2"
    by (simp add: makeFromSensorReading_def exampleImpl_def)
  have f: "time_' exampleMeasurement = 1"
    by (simp add: exampleMeasurement_def)
  from a b have 1: "setStateInitValue 0 5 exampleInit \<noteq> exampleInit" by auto
  from c d have 2: "resetStateInitValue 0 (setStateInitValue 0 5 exampleInit) \<noteq>
      setStateInitValue 0 5 exampleInit" by auto
  from e f 1 2 show ?thesis by simp
qed

section \<open>The scheduler\<close>

text \<open>The comparator is a strict order on the timestamps: nothing is before itself, and
  it is transitive.\<close>

lemma sortMeasurements_strict:
  "\<not> sortMeasurements a a \<and>
   (sortMeasurements a b \<and> sortMeasurements b c \<longrightarrow> sortMeasurements a c) \<and>
   (\<not> sortMeasurements a b \<and> \<not> sortMeasurements b c \<longrightarrow> \<not> sortMeasurements a c)"
  by (auto simp: sortMeasurements_def)

lemma drainAll_is_queue: "drainAll q = q"
proof (induction q)
  case Nil
  show ?case by (simp add: drainAll.simps [of "[]"] drainNext_def)
next
  case (Cons m rest)
  then show ?case by (simp add: drainAll.simps [of "m # rest"] drainNext_def)
qed

lemma set_enqueue: "set (enqueue m q) = insert m (set q)"
  by (induction q) auto

lemma mset_enqueue: "mset (enqueue m q) = add_mset m (mset q)"
  by (induction q) auto

lemma sorted_enqueue:
  "sorted (map time_' q) \<Longrightarrow> sorted (map time_' (enqueue m q))"
proof (induction q)
  case Nil
  show ?case by simp
next
  case (Cons x q)
  then show ?case
    by (auto simp: sortMeasurements_def set_enqueue)
qed

lemma filter_enqueue:
  "sorted (map time_' q) \<Longrightarrow>
   filter (\<lambda>x. time_' x = t) (enqueue m q) =
   filter (\<lambda>x. time_' x = t) q @ (if time_' m = t then [m] else [])"
proof (induction q)
  case Nil
  show ?case by simp
next
  case (Cons x q)
  show ?case
  proof (cases "sortMeasurements m x")
    case True
    with Cons.prems have later: "\<forall>y\<in>set (x # q). time_' m < time_' y"
      by (auto simp: sortMeasurements_def)
    then have "time_' m = t \<Longrightarrow> filter (\<lambda>x. time_' x = t) (x # q) = []"
      by (auto simp: filter_empty_conv)
    with True show ?thesis by auto
  next
    case False
    with Cons show ?thesis by simp
  qed
qed

lemma enqueueAll_snoc: "enqueueAll (ms @ [m]) = enqueue m (enqueueAll ms)"
  by (simp add: enqueueAll_def)

lemma sorted_enqueueAll: "sorted (map time_' (enqueueAll ms))"
proof (induction ms rule: rev_induct)
  case Nil
  show ?case by (simp add: enqueueAll_def)
next
  case (snoc m ms)
  then show ?case by (simp add: enqueueAll_snoc sorted_enqueue)
qed

lemma mset_enqueueAll: "mset (enqueueAll ms) = mset ms"
proof (induction ms rule: rev_induct)
  case Nil
  show ?case by (simp add: enqueueAll_def)
next
  case (snoc m ms)
  then show ?case by (simp add: enqueueAll_snoc mset_enqueue)
qed

lemma filter_enqueueAll:
  "filter (\<lambda>x. time_' x = t) (enqueueAll ms) = filter (\<lambda>x. time_' x = t) ms"
proof (induction ms rule: rev_induct)
  case Nil
  show ?case by (simp add: enqueueAll_def)
next
  case (snoc m ms)
  then show ?case by (simp add: enqueueAll_snoc filter_enqueue sorted_enqueueAll)
qed

text \<open>
  C4. Whatever the order in which measurements are enqueued, draining the scheduler yields
  them in ascending order of their timestamps; they are the measurements that were
  enqueued, each as often as it was enqueued; and the measurements of one timestamp come
  out in the order in which they were enqueued.
\<close>

theorem scheduler_yields_time_order_stable:
  "sorted (map time_' (drainAll (enqueueAll ms))) \<and>
   mset (drainAll (enqueueAll ms)) = mset ms \<and>
   (\<forall>t. filter (\<lambda>m. time_' m = t) (drainAll (enqueueAll ms)) =
        filter (\<lambda>m. time_' m = t) ms)"
  by (simp add: drainAll_is_queue sorted_enqueueAll mset_enqueueAll filter_enqueueAll)

lemma exampleArrivals_drained:
  "drainAll (enqueueAll exampleArrivals) =
     [\<lparr>time_' = 1, \<dots> = 0\<rparr>, \<lparr>time_' = 2, \<dots> = 2\<rparr>, \<lparr>time_' = 2, \<dots> = 3\<rparr>, \<lparr>time_' = 3, \<dots> = 1\<rparr>]"
  by (simp add: drainAll_is_queue enqueueAll_def exampleArrivals_def sortMeasurements_def)

theorem scheduler_yields_time_order_stable_witness:
  "map time_' (drainAll (enqueueAll exampleArrivals)) = [1, 2, 2, 3] \<and>
   sorted (map time_' (drainAll (enqueueAll exampleArrivals))) \<and>
   filter (\<lambda>m. time_' m = 2) (drainAll (enqueueAll exampleArrivals)) =
     [\<lparr>time_' = 2, \<dots> = 2\<rparr>, \<lparr>time_' = 2, \<dots> = 3\<rparr>]"
proof -
  have f: "filter (\<lambda>m. time_' m = 2) exampleArrivals =
      [\<lparr>time_' = 2, \<dots> = 2\<rparr>, \<lparr>time_' = 2, \<dots> = 3\<rparr>]"
    by (simp add: exampleArrivals_def)
  have d: "map time_' (drainAll (enqueueAll exampleArrivals)) = [1, 2, 2, 3]"
    by (simp add: exampleArrivals_drained)
  from scheduler_yields_time_order_stable [of exampleArrivals] f d
  show ?thesis by simp
qed

section \<open>Staged initialization\<close>

lemma length_statevars_initialized:
  "length (statevars (initialized U L m s)) = length (statevars s)"
  by (simp add: MSF_InitMeasurement_apply_def)

lemma nth_statevars_initialized:
  "i < length (statevars s) \<Longrightarrow>
   statevars (initialized U L m s) ! i =
     (if componentFlagged m i
      then (statevars s ! i)\<lparr>state_' := state_' (statevars (InitState m) ! i)\<rparr>
      else statevars s ! i)"
  by (simp add: MSF_InitMeasurement_apply_def)

lemma length_P_initialized:
  "length (P_' (initialized U L m s)) = length (P_' s)"
  by (simp add: MSF_InitMeasurement_apply_def)

lemma nth_P_initialized:
  "r < length (P_' s) \<Longrightarrow>
   P_' (initialized U L m s) ! r =
     map (\<lambda>c. if componentFlagged m r \<or> componentFlagged m c then U ! r ! c else P_' s ! r ! c)
         [0..<length (P_' s ! r)]"
  by (simp add: MSF_InitMeasurement_apply_def)

lemma seeds_initialized:
  "w_m_' (initialized U L m s) =
     (if seedFlagged m (gyroSeed L) then w_m_' (InitState m) else w_m_' s)"
  "a_m_' (initialized U L m s) =
     (if seedFlagged m (accelSeed L) then a_m_' (InitState m) else a_m_' s)"
  "time (initialized U L m s) = time s"
  by (simp_all add: MSF_InitMeasurement_apply_def)

lemma seedFlagged_disjoint:
  assumes "\<forall>i. \<not> (componentFlagged m1 i \<and> componentFlagged m2 i)"
  shows "\<not> (seedFlagged m1 seed \<and> seedFlagged m2 seed)"
  using assms by (cases seed) (auto simp: seedFlagged_def)

lemma statevars_initialized_commute:
  assumes "\<forall>i. \<not> (componentFlagged m1 i \<and> componentFlagged m2 i)"
  shows "statevars (initialized U L m2 (initialized U L m1 s)) =
         statevars (initialized U L m1 (initialized U L m2 s))"
proof (rule nth_equalityI)
  show "length (statevars (initialized U L m2 (initialized U L m1 s))) =
        length (statevars (initialized U L m1 (initialized U L m2 s)))"
    by (simp add: length_statevars_initialized)
next
  fix i
  assume "i < length (statevars (initialized U L m2 (initialized U L m1 s)))"
  then have i: "i < length (statevars s)"
    by (simp add: length_statevars_initialized)
  from assms have "\<not> (componentFlagged m1 i \<and> componentFlagged m2 i)" by blast
  with i show "statevars (initialized U L m2 (initialized U L m1 s)) ! i =
        statevars (initialized U L m1 (initialized U L m2 s)) ! i"
    by (auto simp: nth_statevars_initialized length_statevars_initialized)
qed

lemma P_initialized_commute:
  "P_' (initialized U L m2 (initialized U L m1 s)) =
   P_' (initialized U L m1 (initialized U L m2 s))"
proof (rule nth_equalityI)
  show "length (P_' (initialized U L m2 (initialized U L m1 s))) =
        length (P_' (initialized U L m1 (initialized U L m2 s)))"
    by (simp add: length_P_initialized)
next
  fix r
  assume "r < length (P_' (initialized U L m2 (initialized U L m1 s)))"
  then have r: "r < length (P_' s)"
    by (simp add: length_P_initialized)
  then show "P_' (initialized U L m2 (initialized U L m1 s)) ! r =
        P_' (initialized U L m1 (initialized U L m2 s)) ! r"
    by (auto simp: nth_P_initialized length_P_initialized)
qed

lemma seeds_initialized_commute:
  assumes "\<forall>i. \<not> (componentFlagged m1 i \<and> componentFlagged m2 i)"
  shows "w_m_' (initialized U L m2 (initialized U L m1 s)) =
         w_m_' (initialized U L m1 (initialized U L m2 s))"
    and "a_m_' (initialized U L m2 (initialized U L m1 s)) =
         a_m_' (initialized U L m1 (initialized U L m2 s))"
  using seedFlagged_disjoint [OF assms, of "gyroSeed L"]
    seedFlagged_disjoint [OF assms, of "accelSeed L"]
  by (auto simp: seeds_initialized)

text \<open>
  C8. Two init measurements that flag disjoint sets of components can be applied to a
  snapshot in either order: both applications succeed, the resulting snapshots are equal,
  every flagged component holds the value of the measurement that flagged it, and a
  component that neither of them flags is as it was. The same holds of the designated
  fields: the gyro reading and the acceleration reading are each that of the measurement
  whose flagged component the field belongs to, and as they were when neither measurement
  seeds the field.
\<close>

theorem staged_init_independent:
  assumes disjoint: "\<forall>i. \<not> (componentFlagged m1 i \<and> componentFlagged m2 i)"
  shows "fst (MSF_InitMeasurement_apply U L m1 s) = Inr () \<and>
     fst (MSF_InitMeasurement_apply U L m2 s) = Inr () \<and>
     initialized U L m2 (initialized U L m1 s) = initialized U L m1 (initialized U L m2 s) \<and>
     (\<forall>i<length (statevars s).
        (componentFlagged m1 i \<longrightarrow>
           state_' (statevars (initialized U L m2 (initialized U L m1 s)) ! i) =
           state_' (statevars (InitState m1) ! i)) \<and>
        (componentFlagged m2 i \<longrightarrow>
           state_' (statevars (initialized U L m2 (initialized U L m1 s)) ! i) =
           state_' (statevars (InitState m2) ! i)) \<and>
        (\<not> componentFlagged m1 i \<and> \<not> componentFlagged m2 i \<longrightarrow>
           statevars (initialized U L m2 (initialized U L m1 s)) ! i = statevars s ! i)) \<and>
     (seedFlagged m1 (gyroSeed L) \<longrightarrow>
        w_m_' (initialized U L m2 (initialized U L m1 s)) = w_m_' (InitState m1)) \<and>
     (seedFlagged m2 (gyroSeed L) \<longrightarrow>
        w_m_' (initialized U L m2 (initialized U L m1 s)) = w_m_' (InitState m2)) \<and>
     (\<not> seedFlagged m1 (gyroSeed L) \<and> \<not> seedFlagged m2 (gyroSeed L) \<longrightarrow>
        w_m_' (initialized U L m2 (initialized U L m1 s)) = w_m_' s) \<and>
     (seedFlagged m1 (accelSeed L) \<longrightarrow>
        a_m_' (initialized U L m2 (initialized U L m1 s)) = a_m_' (InitState m1)) \<and>
     (seedFlagged m2 (accelSeed L) \<longrightarrow>
        a_m_' (initialized U L m2 (initialized U L m1 s)) = a_m_' (InitState m2)) \<and>
     (\<not> seedFlagged m1 (accelSeed L) \<and> \<not> seedFlagged m2 (accelSeed L) \<longrightarrow>
        a_m_' (initialized U L m2 (initialized U L m1 s)) = a_m_' s)"
proof (intro conjI allI impI)
  show "fst (MSF_InitMeasurement_apply U L m1 s) = Inr ()"
    by (simp add: MSF_InitMeasurement_apply_def)
next
  show "fst (MSF_InitMeasurement_apply U L m2 s) = Inr ()"
    by (simp add: MSF_InitMeasurement_apply_def)
next
  show "initialized U L m2 (initialized U L m1 s) = initialized U L m1 (initialized U L m2 s)"
    using statevars_initialized_commute [OF disjoint, of U L s]
      P_initialized_commute [of U L m2 m1 s] seeds_initialized_commute [OF disjoint, of U L s]
    by (simp add: EKFState.equality seeds_initialized(3))
next
  fix i
  assume i: "i < length (statevars s)" and f: "componentFlagged m1 i"
  with disjoint have "\<not> componentFlagged m2 i" by blast
  with i f show "state_' (statevars (initialized U L m2 (initialized U L m1 s)) ! i) =
        state_' (statevars (InitState m1) ! i)"
    by (simp add: nth_statevars_initialized length_statevars_initialized)
next
  fix i
  assume i: "i < length (statevars s)" and f: "componentFlagged m2 i"
  then show "state_' (statevars (initialized U L m2 (initialized U L m1 s)) ! i) =
        state_' (statevars (InitState m2) ! i)"
    by (simp add: nth_statevars_initialized length_statevars_initialized)
next
  fix i
  assume i: "i < length (statevars s)"
    and f: "\<not> componentFlagged m1 i \<and> \<not> componentFlagged m2 i"
  then show "statevars (initialized U L m2 (initialized U L m1 s)) ! i = statevars s ! i"
    by (simp add: nth_statevars_initialized length_statevars_initialized)
next
  assume f: "seedFlagged m1 (gyroSeed L)"
  with seedFlagged_disjoint [OF disjoint, of "gyroSeed L"]
  show "w_m_' (initialized U L m2 (initialized U L m1 s)) = w_m_' (InitState m1)"
    by (simp add: seeds_initialized)
next
  assume "seedFlagged m2 (gyroSeed L)"
  then show "w_m_' (initialized U L m2 (initialized U L m1 s)) = w_m_' (InitState m2)"
    by (simp add: seeds_initialized)
next
  assume "\<not> seedFlagged m1 (gyroSeed L) \<and> \<not> seedFlagged m2 (gyroSeed L)"
  then show "w_m_' (initialized U L m2 (initialized U L m1 s)) = w_m_' s"
    by (simp add: seeds_initialized)
next
  assume f: "seedFlagged m1 (accelSeed L)"
  with seedFlagged_disjoint [OF disjoint, of "accelSeed L"]
  show "a_m_' (initialized U L m2 (initialized U L m1 s)) = a_m_' (InitState m1)"
    by (simp add: seeds_initialized)
next
  assume "seedFlagged m2 (accelSeed L)"
  then show "a_m_' (initialized U L m2 (initialized U L m1 s)) = a_m_' (InitState m2)"
    by (simp add: seeds_initialized)
next
  assume "\<not> seedFlagged m1 (accelSeed L) \<and> \<not> seedFlagged m2 (accelSeed L)"
  then show "a_m_' (initialized U L m2 (initialized U L m1 s)) = a_m_' s"
    by (simp add: seeds_initialized)
qed

lemma exampleGyroInit_facts:
  "componentFlagged exampleGyroInit i = (i = 0)"
  "state_' (statevars (InitState exampleGyroInit) ! 0) = 5"
  "w_m_' (InitState exampleGyroInit) = [1, 2, 3]"
  "ContainsInitialSensorReadings_' exampleGyroInit"
proof -
  have sv: "statevars (InitState exampleGyroInit) =
      [\<lparr>state_' = 5, hasResetValue = True\<rparr>, \<lparr>state_' = 0, hasResetValue = False\<rparr>]"
    by (simp add: exampleGyroInit_def put_w_m_def statevars_setStateInitValue exampleInit_def
        MSF_InitMeasurement_new_def exampleState_def)
  show "componentFlagged exampleGyroInit i = (i = 0)"
    by (cases i) (auto simp: componentFlagged_def sv less_Suc_eq)
  show "state_' (statevars (InitState exampleGyroInit) ! 0) = 5"
    by (simp add: sv)
  show "w_m_' (InitState exampleGyroInit) = [1, 2, 3]"
    by (simp add: exampleGyroInit_def put_w_m_def)
  show "ContainsInitialSensorReadings_' exampleGyroInit"
    by (simp add: exampleGyroInit_def put_w_m_def setStateInitValue_def Let_def exampleInit_def
        MSF_InitMeasurement_new_def)
qed

lemma exampleAccelInit_facts:
  "componentFlagged exampleAccelInit i = (i = Suc 0)"
  "state_' (statevars (InitState exampleAccelInit) ! Suc 0) = 7"
  "a_m_' (InitState exampleAccelInit) = [4, 5, 6]"
  "ContainsInitialSensorReadings_' exampleAccelInit"
proof -
  have sv: "statevars (InitState exampleAccelInit) =
      [\<lparr>state_' = 0, hasResetValue = False\<rparr>, \<lparr>state_' = 7, hasResetValue = True\<rparr>]"
    by (simp add: exampleAccelInit_def put_a_m_def statevars_setStateInitValue exampleInit_def
        MSF_InitMeasurement_new_def exampleState_def)
  show "componentFlagged exampleAccelInit i = (i = Suc 0)"
    by (cases i) (auto simp: componentFlagged_def sv less_Suc_eq)
  show "state_' (statevars (InitState exampleAccelInit) ! Suc 0) = 7"
    by (simp add: sv)
  show "a_m_' (InitState exampleAccelInit) = [4, 5, 6]"
    by (simp add: exampleAccelInit_def put_a_m_def)
  show "ContainsInitialSensorReadings_' exampleAccelInit"
    by (simp add: exampleAccelInit_def put_a_m_def setStateInitValue_def Let_def exampleInit_def
        MSF_InitMeasurement_new_def)
qed

theorem staged_init_independent_witness:
  "initialized exampleUncertainty exampleLayout exampleAccelInit
     (initialized exampleUncertainty exampleLayout exampleGyroInit exampleState) =
   initialized exampleUncertainty exampleLayout exampleGyroInit
     (initialized exampleUncertainty exampleLayout exampleAccelInit exampleState) \<and>
   state_' (statevars (initialized exampleUncertainty exampleLayout exampleAccelInit
     (initialized exampleUncertainty exampleLayout exampleGyroInit exampleState)) ! 0) = 5 \<and>
   state_' (statevars (initialized exampleUncertainty exampleLayout exampleAccelInit
     (initialized exampleUncertainty exampleLayout exampleGyroInit exampleState)) ! Suc 0) = 7 \<and>
   w_m_' (initialized exampleUncertainty exampleLayout exampleAccelInit
     (initialized exampleUncertainty exampleLayout exampleGyroInit exampleState)) = [1, 2, 3] \<and>
   a_m_' (initialized exampleUncertainty exampleLayout exampleAccelInit
     (initialized exampleUncertainty exampleLayout exampleGyroInit exampleState)) = [4, 5, 6]"
proof -
  have d: "\<forall>i. \<not> (componentFlagged exampleGyroInit i \<and> componentFlagged exampleAccelInit i)"
    by (auto simp: exampleGyroInit_facts(1) exampleAccelInit_facts(1))
  have i0: "0 < length (statevars exampleState)" and i1: "Suc 0 < length (statevars exampleState)"
    by (simp_all add: exampleState_def)
  have g: "seedFlagged exampleGyroInit (gyroSeed exampleLayout)"
    by (simp add: seedFlagged_def exampleLayout_def exampleGyroInit_facts)
  have a: "seedFlagged exampleAccelInit (accelSeed exampleLayout)"
    by (simp add: seedFlagged_def exampleLayout_def exampleAccelInit_facts)
  note t = staged_init_independent [OF d, of exampleUncertainty exampleLayout exampleState]
  note same = t [THEN conjunct2, THEN conjunct2, THEN conjunct1]
  note rest = t [THEN conjunct2, THEN conjunct2, THEN conjunct2]
  note per_component = rest [THEN conjunct1, rule_format]
  note seeds = rest [THEN conjunct2]
  from per_component [OF i0] exampleGyroInit_facts(1) [of 0] exampleGyroInit_facts(2)
  have r0: "state_' (statevars (initialized exampleUncertainty exampleLayout exampleAccelInit
     (initialized exampleUncertainty exampleLayout exampleGyroInit exampleState)) ! 0) = 5"
    by simp
  from per_component [OF i1] exampleAccelInit_facts(1) [of "Suc 0"] exampleAccelInit_facts(2)
  have r1: "state_' (statevars (initialized exampleUncertainty exampleLayout exampleAccelInit
     (initialized exampleUncertainty exampleLayout exampleGyroInit exampleState)) ! Suc 0) = 7"
    by simp
  from seeds g exampleGyroInit_facts(3)
  have w: "w_m_' (initialized exampleUncertainty exampleLayout exampleAccelInit
     (initialized exampleUncertainty exampleLayout exampleGyroInit exampleState)) = [1, 2, 3]"
    by simp
  from seeds a exampleAccelInit_facts(3)
  have am: "a_m_' (initialized exampleUncertainty exampleLayout exampleAccelInit
     (initialized exampleUncertainty exampleLayout exampleGyroInit exampleState)) = [4, 5, 6]"
    by simp
  from same r0 r1 w am show ?thesis by blast
qed

section \<open>Delayed measurements\<close>

lemma findAtOrBefore_None_iff:
  "findAtOrBefore t ss = None \<longleftrightarrow> (\<forall>s\<in>set ss. t < time s)"
  by (induction ss) (auto split: option.splits)

lemma findAtOrBefore_Some:
  "findAtOrBefore t ss = Some i \<Longrightarrow>
   i < length ss \<and> time (ss ! i) \<le> t \<and> (\<forall>j<length ss. i < j \<longrightarrow> t < time (ss ! j))"
proof (induction ss arbitrary: i)
  case Nil
  then show ?case by simp
next
  case (Cons s ss)
  show ?case
  proof (cases "findAtOrBefore t ss")
    case None
    with Cons.prems have i: "i = 0" and s: "time s \<le> t"
      by (auto split: if_splits)
    from None have "\<forall>x\<in>set ss. t < time x"
      by (simp add: findAtOrBefore_None_iff)
    then have "\<forall>j<length (s # ss). 0 < j \<longrightarrow> t < time ((s # ss) ! j)"
      by (auto simp: nth_Cons split: nat.splits)
    with i s show ?thesis by simp
  next
    case (Some k)
    with Cons.prems have i: "i = Suc k" by simp
    from Cons.IH [OF Some]
    have k: "k < length ss" and le: "time (ss ! k) \<le> t"
      and later: "\<forall>j<length ss. k < j \<longrightarrow> t < time (ss ! j)"
      by blast+
    from later have "\<forall>j<length (s # ss). Suc k < j \<longrightarrow> t < time ((s # ss) ! j)"
      by (auto simp: nth_Cons split: nat.splits)
    with i k le show ?thesis by simp
  qed
qed

lemma findAtOrBefore_nearest:
  assumes "sorted (map time ss)" and "findAtOrBefore t ss = Some i"
    and "j < length ss" and "time (ss ! j) \<le> t"
  shows "time (ss ! j) \<le> time (ss ! i)"
proof -
  from findAtOrBefore_Some [OF assms(2)]
  have i: "i < length ss" and later: "\<forall>j<length ss. i < j \<longrightarrow> t < time (ss ! j)"
    by blast+
  from later assms(3,4) have "j \<le> i"
    by (meson not_le_imp_less not_less)
  from sorted_nth_mono [OF assms(1) this] i
  have "map time ss ! j \<le> map time ss ! i" by simp
  with i assms(3) show ?thesis by simp
qed

text \<open>
  C1. A measurement taken before the time of the head snapshot, applied to a history
  that is ordered by time: when every retained snapshot is later than the measurement,
  the application fails with TooOld; otherwise a retained snapshot at or before the
  measurement's time is found, none of the retained snapshots at or before that time is
  later than it, and when the correction of this snapshot succeeds the result is the
  context with this snapshot corrected, handed to the re-propagation hook with the
  measurement's time.
\<close>

theorem delayed_measurement_resolution:
  assumes late: "time_' meas < time (headSnapshot ctx)"
    and ordered: "sorted (map time (retained ctx))"
  shows "((\<forall>s\<in>set (retained ctx). time_' meas < time s) \<longrightarrow>
            TypedMeasurement_apply invert reapplyFrom meas ctx =
              (Inl TooOld, reportFailure TooOld ctx)) \<and>
         ((\<exists>s\<in>set (retained ctx). time s \<le> time_' meas) \<longrightarrow>
            (\<exists>i<length (retained ctx).
               findAtOrBefore (time_' meas) (retained ctx) = Some i \<and>
               time (retained ctx ! i) \<le> time_' meas \<and>
               (\<forall>j<length (retained ctx). time (retained ctx ! j) \<le> time_' meas \<longrightarrow>
                  time (retained ctx ! j) \<le> time (retained ctx ! i)) \<and>
               (\<forall>s. calculateAndApplyCorrection invert (retained ctx ! i)
                       (jacobian meas) (residual meas) (R_' meas) = Inr s \<longrightarrow>
                    TypedMeasurement_apply invert reapplyFrom meas ctx =
                      (Inr (), reapplyFrom (time_' meas)
                                 (ctx\<lparr>retained := (retained ctx)[i := s]\<rparr>)))))"
proof (intro conjI impI)
  assume "\<forall>s\<in>set (retained ctx). time_' meas < time s"
  then have "findAtOrBefore (time_' meas) (retained ctx) = None"
    by (simp add: findAtOrBefore_None_iff)
  with late show "TypedMeasurement_apply invert reapplyFrom meas ctx =
      (Inl TooOld, reportFailure TooOld ctx)"
    by (simp add: TypedMeasurement_apply_def)
next
  assume "\<exists>s\<in>set (retained ctx). time s \<le> time_' meas"
  then obtain x where "x \<in> set (retained ctx)" and "\<not> time_' meas < time x"
    by (auto simp: not_less)
  then have "findAtOrBefore (time_' meas) (retained ctx) \<noteq> None"
    unfolding findAtOrBefore_None_iff by blast
  then obtain i where found: "findAtOrBefore (time_' meas) (retained ctx) = Some i"
    by blast
  from findAtOrBefore_Some [OF found]
  have i: "i < length (retained ctx)" and le: "time (retained ctx ! i) \<le> time_' meas"
    by blast+
  have nearest: "\<forall>j<length (retained ctx). time (retained ctx ! j) \<le> time_' meas \<longrightarrow>
      time (retained ctx ! j) \<le> time (retained ctx ! i)"
    using findAtOrBefore_nearest [OF ordered found] by blast
  have applied: "\<forall>s. calculateAndApplyCorrection invert (retained ctx ! i)
        (jacobian meas) (residual meas) (R_' meas) = Inr s \<longrightarrow>
      TypedMeasurement_apply invert reapplyFrom meas ctx =
        (Inr (), reapplyFrom (time_' meas) (ctx\<lparr>retained := (retained ctx)[i := s]\<rparr>))"
    using late found by (simp add: TypedMeasurement_apply_def)
  from i found le nearest applied
  show "\<exists>i<length (retained ctx).
      findAtOrBefore (time_' meas) (retained ctx) = Some i \<and>
      time (retained ctx ! i) \<le> time_' meas \<and>
      (\<forall>j<length (retained ctx). time (retained ctx ! j) \<le> time_' meas \<longrightarrow>
         time (retained ctx ! j) \<le> time (retained ctx ! i)) \<and>
      (\<forall>s. calculateAndApplyCorrection invert (retained ctx ! i)
              (jacobian meas) (residual meas) (R_' meas) = Inr s \<longrightarrow>
           TypedMeasurement_apply invert reapplyFrom meas ctx =
             (Inr (), reapplyFrom (time_' meas) (ctx\<lparr>retained := (retained ctx)[i := s]\<rparr>)))"
    by blast
qed

lemma mat_one: "mat (Suc 0) (Suc 0) f = [[f 0 0]]"
  by (simp add: mat_def)

lemma exampleCorrection:
  "calculateAndApplyCorrection invert1 (exampleSnapshot t) [[1]] [2] [[1]] =
     Inr ((exampleSnapshot t)\<lparr>statevars := [\<lparr>state_' = 1, hasResetValue = False\<rparr>],
                              P_' := [[1 / 2]]\<rparr>)"
  by (simp add: calculateAndApplyCorrection_def exampleSnapshot_def is_mat_def Let_def
      mat_mul_def mat_transpose_def mat_add_def mat_sub_def mat_identity_def mat_vec_def
      mat_one invert1_def)

lemma exampleContext_find:
  "findAtOrBefore (1 / 2) (retained exampleContext) = None"
  "findAtOrBefore 2 (retained exampleContext) = Some 1"
  by (simp_all add: exampleContext_def exampleSnapshot_def)

lemma exampleContext_ordered: "sorted (map time (retained exampleContext))"
  by (simp add: exampleContext_def exampleSnapshot_def)

lemma exampleReading_late:
  "t < 3 \<Longrightarrow> time_' ((exampleReading t)\<lparr>R_' := R, jacobian := H\<rparr>) < time (headSnapshot exampleContext)"
  "t < 3 \<Longrightarrow> time_' (exampleReading t) < time (headSnapshot exampleContext)"
  by (simp_all add: exampleReading_def exampleContext_def exampleSnapshot_def)

theorem delayed_measurement_resolution_witness:
  "TypedMeasurement_apply invert1 keepContext (exampleReading (1 / 2)) exampleContext =
     (Inl TooOld, reportFailure TooOld exampleContext) \<and>
   TypedMeasurement_apply invert1 keepContext (exampleReading 2) exampleContext =
     (Inr (), exampleContext\<lparr>retained :=
        [exampleSnapshot 1,
         (exampleSnapshot 2)\<lparr>statevars := [\<lparr>state_' = 1, hasResetValue = False\<rparr>],
                              P_' := [[1 / 2]]\<rparr>]\<rparr>)"
proof -
  have late1: "time_' (exampleReading (1 / 2)) < time (headSnapshot exampleContext)"
    by (simp add: exampleReading_late)
  have late2: "time_' (exampleReading 2) < time (headSnapshot exampleContext)"
    by (simp add: exampleReading_late)
  have none: "\<forall>s\<in>set (retained exampleContext). time_' (exampleReading (1 / 2)) < time s"
    by (simp add: exampleContext_def exampleSnapshot_def exampleReading_def)
  have some: "\<exists>s\<in>set (retained exampleContext). time s \<le> time_' (exampleReading 2)"
    by (simp add: exampleContext_def exampleSnapshot_def exampleReading_def)
  from delayed_measurement_resolution [OF late1 exampleContext_ordered, of invert1 keepContext] none
  have old: "TypedMeasurement_apply invert1 keepContext (exampleReading (1 / 2)) exampleContext =
      (Inl TooOld, reportFailure TooOld exampleContext)"
    by blast
  from delayed_measurement_resolution [OF late2 exampleContext_ordered, of invert1 keepContext] some
  obtain i where found: "findAtOrBefore (time_' (exampleReading 2)) (retained exampleContext) = Some i"
    and applied: "\<forall>s. calculateAndApplyCorrection invert1 (retained exampleContext ! i)
          (jacobian (exampleReading 2)) (residual (exampleReading 2)) (R_' (exampleReading 2)) = Inr s \<longrightarrow>
        TypedMeasurement_apply invert1 keepContext (exampleReading 2) exampleContext =
          (Inr (), keepContext (time_' (exampleReading 2))
                     (exampleContext\<lparr>retained := (retained exampleContext)[i := s]\<rparr>))"
    by blast
  from found have i: "i = 1"
    by (simp add: exampleReading_def exampleContext_find)
  have target: "retained exampleContext ! 1 = exampleSnapshot 2"
    by (simp add: exampleContext_def)
  have inputs: "jacobian (exampleReading 2) = [[1]]" "residual (exampleReading 2) = [2]"
    "R_' (exampleReading 2) = [[1]]"
    by (simp_all add: exampleReading_def)
  from applied i target inputs exampleCorrection [of 2]
  have "TypedMeasurement_apply invert1 keepContext (exampleReading 2) exampleContext =
      (Inr (), keepContext (time_' (exampleReading 2))
         (exampleContext\<lparr>retained := (retained exampleContext)
            [1 := (exampleSnapshot 2)\<lparr>statevars := [\<lparr>state_' = 1, hasResetValue = False\<rparr>],
                                        P_' := [[1 / 2]]\<rparr>]\<rparr>))"
    by simp
  then have new: "TypedMeasurement_apply invert1 keepContext (exampleReading 2) exampleContext =
     (Inr (), exampleContext\<lparr>retained :=
        [exampleSnapshot 1,
         (exampleSnapshot 2)\<lparr>statevars := [\<lparr>state_' = 1, hasResetValue = False\<rparr>],
                              P_' := [[1 / 2]]\<rparr>]\<rparr>)"
    by (simp add: keepContext_def exampleContext_def)
  from old new show ?thesis by simp
qed

section \<open>The covariance after a correction\<close>


















end
